theory Spec2Isabelle
  imports Complex_Main "HOL-Library.AList"
begin

section \<open>JavaScript values\<close>

text \<open>
  The module under verification is \<^verbatim>\<open>modules/statistics/AvgRTPStatsReporter.js\<close>.
  Its inputs are untyped JavaScript values, so the embedding starts with the part of the
  language's value model the module relies on.

  A JavaScript number is modelled by \<open>jsnum\<close>: a real, the two infinities or
  not-a-number.  The special values behave as in IEEE 754; on finite values the arithmetic
  is exact (rounding, overflow to infinity and the sign of zero are not modelled, a zero
  divisor is \<open>+0\<close>).
\<close>

datatype jsnum = Fin real | PosInf | NegInf | NaN

fun jsadd :: "jsnum \<Rightarrow> jsnum \<Rightarrow> jsnum" where
  "jsadd NaN y = NaN"
| "jsadd x NaN = NaN"
| "jsadd (Fin a) (Fin b) = Fin (a + b)"
| "jsadd (Fin a) PosInf = PosInf"
| "jsadd (Fin a) NegInf = NegInf"
| "jsadd PosInf (Fin b) = PosInf"
| "jsadd NegInf (Fin b) = NegInf"
| "jsadd PosInf PosInf = PosInf"
| "jsadd NegInf NegInf = NegInf"
| "jsadd PosInf NegInf = NaN"
| "jsadd NegInf PosInf = NaN"

fun jsdiv :: "jsnum \<Rightarrow> jsnum \<Rightarrow> jsnum" where
  "jsdiv NaN y = NaN"
| "jsdiv x NaN = NaN"
| "jsdiv (Fin a) (Fin b) =
     (if b = 0 then (if a = 0 then NaN else if 0 < a then PosInf else NegInf)
      else Fin (a / b))"
| "jsdiv (Fin a) PosInf = Fin 0"
| "jsdiv (Fin a) NegInf = Fin 0"
| "jsdiv PosInf (Fin b) = (if b < 0 then NegInf else PosInf)"
| "jsdiv NegInf (Fin b) = (if b < 0 then PosInf else NegInf)"
| "jsdiv PosInf PosInf = NaN"
| "jsdiv PosInf NegInf = NaN"
| "jsdiv NegInf PosInf = NaN"
| "jsdiv NegInf NegInf = NaN"

text \<open>The global \<^verbatim>\<open>isNaN\<close>, applied to a number.\<close>

definition isNaN :: "jsnum \<Rightarrow> bool" where
  "isNaN x = (x = NaN)"

text \<open>
  Values: the primitives, plain objects and arrays.  An object is the list of its own
  enumerable properties in enumeration order (a later repetition of a key is not a
  property); an array is the list of its elements (no holes).
\<close>

datatype jsval =
    JUndefined
  | JNull
  | JBool bool
  | JNum jsnum
  | JStr string
  | JObj "(string \<times> jsval) list"
  | JArr "jsval list"

datatype error = TypeError

text \<open>Truthiness, as \<^verbatim>\<open>!x\<close> and \<^verbatim>\<open>&&\<close> see it.\<close>

fun truthy :: "jsval \<Rightarrow> bool" where
  "truthy JUndefined = False"
| "truthy JNull = False"
| "truthy (JBool b) = b"
| "truthy (JNum x) = (x \<noteq> NaN \<and> x \<noteq> Fin 0)"
| "truthy (JStr s) = (s \<noteq> [])"
| "truthy (JObj kvs) = True"
| "truthy (JArr xs) = True"

fun nullish :: "jsval \<Rightarrow> bool" where
  "nullish JUndefined = True"
| "nullish JNull = True"
| "nullish v = False"

text \<open>Decimal rendering of a natural number: array index keys and interpolated counters.\<close>

definition digit_char :: "nat \<Rightarrow> char" where
  "digit_char d = ''0123456789'' ! d"

function show_nat :: "nat \<Rightarrow> string" where
  "show_nat k =
     (if k < 10 then [digit_char k] else show_nat (k div 10) @ [digit_char (k mod 10)])"
  by pat_completeness auto
termination
  by (relation "measure id") auto

declare show_nat.simps [simp del]

definition show_int :: "int \<Rightarrow> string" where
  "show_int i = (if i < 0 then CHR ''-'' # show_nat (nat (- i)) else show_nat (nat i))"

text \<open>
  The own enumerable properties of a value that is neither \<^verbatim>\<open>undefined\<close> nor
  \<^verbatim>\<open>null\<close>: an array and a string have one per index.
\<close>

fun ownEntries :: "jsval \<Rightarrow> (string \<times> jsval) list" where
  "ownEntries (JObj kvs) = AList.clearjunk kvs"
| "ownEntries (JArr xs) = zip (map show_nat [0..<length xs]) xs"
| "ownEntries (JStr s) = zip (map show_nat [0..<length s]) (map (\<lambda>c. JStr [c]) s)"
| "ownEntries v = []"

text \<open>
  Property read \<^verbatim>\<open>v[k]\<close>.  Reading a property of \<^verbatim>\<open>undefined\<close> or
  \<^verbatim>\<open>null\<close> throws.  Besides the own properties only \<^verbatim>\<open>length\<close> of arrays and
  strings is modelled; the module reads no other inherited property.
\<close>

fun hasLength :: "jsval \<Rightarrow> nat option" where
  "hasLength (JArr xs) = Some (length xs)"
| "hasLength (JStr s) = Some (length s)"
| "hasLength v = None"

definition getProp :: "jsval \<Rightarrow> string \<Rightarrow> error + jsval" where
  "getProp v k =
     (if nullish v then Inl TypeError
      else case (if k = ''length'' then hasLength v else None) of
             Some l \<Rightarrow> Inr (JNum (Fin (real l)))
           | None \<Rightarrow>
               (case map_of (ownEntries v) k of
                  None \<Rightarrow> Inr JUndefined
                | Some x \<Rightarrow> Inr x))"

text \<open>\<^verbatim>\<open>Object.keys(v)\<close>.\<close>

definition objectKeys :: "jsval \<Rightarrow> error + string list" where
  "objectKeys v = (if nullish v then Inl TypeError else Inr (map fst (ownEntries v)))"

section \<open>Observable effects\<close>

text \<open>
  What a method does besides changing its object is returned as a list of effects, in
  the order they happen: calls of the logger, and calls of
  \<^verbatim>\<open>Statistics.analytics.sendEvent\<close> (the analytics sink).  The payload of an event is
  an object \<^verbatim>\<open>{ value: x }\<close> or a bare number.
\<close>

datatype payload = ValueObj jsnum | Bare jsnum

datatype effect =
    LogError string "jsval list"
  | LogInfo string
  | LogDebug string
  | SendEvent string payload

fun isSendEvent :: "effect \<Rightarrow> bool" where
  "isSendEvent (SendEvent nm p) = True"
| "isSendEvent e = False"


section \<open>AverageStatReport\<close>

record AverageStatReport =
  name :: string
  count :: int
  sum' :: jsnum

definition new_AverageStatReport :: "string \<Rightarrow> AverageStatReport" where
  "new_AverageStatReport nm = \<lparr>name = nm, count = 0, sum' = Fin 0\<rparr>"

text \<open>
  \<^verbatim>\<open>addNext(nextValue)\<close>: anything whose \<^verbatim>\<open>typeof\<close> is not \<^verbatim>\<open>'number'\<close> is logged
  and ignored.
\<close>

fun addNext :: "jsval \<Rightarrow> AverageStatReport \<Rightarrow> AverageStatReport \<times> effect list" where
  "addNext (JNum x) r = (r\<lparr>sum' := jsadd (sum' r) x, count := count r + 1\<rparr>, [])"
| "addNext v r =
     (r, [LogError (name r @ '' - invalid value for idx: '' @ show_int (count r)) [v]])"

definition calculate :: "AverageStatReport \<Rightarrow> jsnum" where
  "calculate r = jsdiv (sum' r) (Fin (real_of_int (count r)))"

definition report :: "bool \<Rightarrow> AverageStatReport \<Rightarrow> effect list" where
  "report isP2P r =
     [SendEvent ((if isP2P then ''p2p.'' else '''') @ name r) (ValueObj (calculate r))]"

definition reset :: "AverageStatReport \<Rightarrow> AverageStatReport" where
  "reset r = r\<lparr>sum' := Fin 0, count := 0\<rparr>"

text \<open>Feeding a sequence of values, one \<^verbatim>\<open>addNext\<close> call each, in order.\<close>

fun addNext_all :: "jsval list \<Rightarrow> AverageStatReport \<Rightarrow> AverageStatReport" where
  "addNext_all [] r = r"
| "addNext_all (v # vs) r = addNext_all vs (fst (addNext v r))"


section \<open>The environment\<close>

text \<open>
  The collaborators the module queries while it handles an event: the conference
  (\<^verbatim>\<open>isP2PActive()\<close>, \<^verbatim>\<open>getParticipants().length\<close>, \<^verbatim>\<open>myUserId()\<close>), the
  capability probes of \<^verbatim>\<open>RTCBrowserType\<close>, and the host's \<^verbatim>\<open>parseInt(x, 10)\<close>.
  None of them is part of the module, so each event comes with the answers they give
  while it is handled; \<open>parseInt10\<close> is left a parameter (its conversion of a number to a
  string has no counterpart on reals).
\<close>

record env =
  isP2PActive :: bool
  participantCount :: nat
  myUserId :: jsval
  supportsRTTStatistics :: bool
  supportsBandwidthStatistics :: bool
  parseInt10 :: "jsval \<Rightarrow> jsnum"

section \<open>ConnectionAvgStats\<close>

text \<open>
  \<open>avgRemoteRTTMap\<close> is a JavaScript \<^verbatim>\<open>Map\<close>: an association list in insertion order
  (\<open>AList.update\<close> replaces in place or appends, \<open>AList.delete\<close> removes, \<open>[]\<close> is the
  cleared map).
\<close>

record ConnectionAvgStats =
  c_isP2P :: bool
  c_n :: int
  c_sampleIdx :: int
  avgRTT :: AverageStatReport
  avgRemoteRTTMap :: "(string \<times> AverageStatReport) list"

definition new_ConnectionAvgStats :: "bool \<Rightarrow> int \<Rightarrow> ConnectionAvgStats" where
  "new_ConnectionAvgStats isP2P n =
     \<lparr>c_isP2P = isP2P, c_n = n, c_sampleIdx = 0,
      avgRTT = new_AverageStatReport ''stat.avg.rtt'', avgRemoteRTTMap = []\<rparr>"

text \<open>
  The loop of \<^verbatim>\<open>_calculateAvgRemoteRTT\<close> over the map's values, with the running
  \<^verbatim>\<open>count\<close> and \<^verbatim>\<open>sum\<close>; an entry that contributes is reset in place.
\<close>

fun remoteRTT_loop ::
  "(string \<times> AverageStatReport) list \<Rightarrow> nat \<Rightarrow> jsnum \<Rightarrow>
     (string \<times> AverageStatReport) list \<times> nat \<times> jsnum" where
  "remoteRTT_loop [] cnt sm = ([], cnt, sm)"
| "remoteRTT_loop ((pid, remoteAvg) # rest) cnt sm =
     (let avg = calculate remoteAvg in
      if \<not> isNaN avg then
        (case remoteRTT_loop rest (cnt + 1) (jsadd sm avg) of
           (rest', cnt', sm') \<Rightarrow> ((pid, reset remoteAvg) # rest', cnt', sm'))
      else
        (case remoteRTT_loop rest cnt sm of
           (rest', cnt', sm') \<Rightarrow> ((pid, remoteAvg) # rest', cnt', sm')))"

definition calculateAvgRemoteRTT :: "ConnectionAvgStats \<Rightarrow> jsnum \<times> ConnectionAvgStats" where
  "calculateAvgRemoteRTT c =
     (case remoteRTT_loop (avgRemoteRTTMap c) 0 (Fin 0) of
        (m', cnt, sm) \<Rightarrow> (jsdiv sm (Fin (real cnt)), c\<lparr>avgRemoteRTTMap := m'\<rparr>))"

definition ConnectionAvgStats_resetAvgStats :: "ConnectionAvgStats \<Rightarrow> ConnectionAvgStats" where
  "ConnectionAvgStats_resetAvgStats c =
     c\<lparr>avgRTT := reset (avgRTT c), avgRemoteRTTMap := [], c_sampleIdx := 0\<rparr>"

text \<open>
  Lines 169 to 175 of \<^verbatim>\<open>_calculateAvgStats\<close>: what one sample does to the local
  round-trip average.  \<^verbatim>\<open>data.transport[0].rtt\<close> throws when the first transport entry
  is \<^verbatim>\<open>undefined\<close> or \<^verbatim>\<open>null\<close>.
\<close>

definition feedRTT ::
  "env \<Rightarrow> jsval \<Rightarrow> AverageStatReport \<Rightarrow> error + AverageStatReport \<times> effect list" where
  "feedRTT env data a =
     (if supportsRTTStatistics env then
        (case getProp data ''transport'' of
           Inl e \<Rightarrow> Inl e
         | Inr transport \<Rightarrow>
             if \<not> truthy transport then Inr (reset a, [])
             else
               (case getProp transport ''length'' of
                  Inl e \<Rightarrow> Inl e
                | Inr len \<Rightarrow>
                    if truthy len then
                      (case getProp transport ''0'' of
                         Inl e \<Rightarrow> Inl e
                       | Inr t0 \<Rightarrow>
                           (case getProp t0 ''rtt'' of
                              Inl e \<Rightarrow> Inl e
                            | Inr rtt \<Rightarrow> Inr (addNext rtt a)))
                    else Inr (reset a, [])))
      else Inr (a, []))"

text \<open>The window boundary of \<^verbatim>\<open>_calculateAvgStats\<close> (lines 179 to 197).\<close>

definition ConnectionAvgStats_boundary ::
  "env \<Rightarrow> ConnectionAvgStats \<Rightarrow> ConnectionAvgStats \<times> effect list" where
  "ConnectionAvgStats_boundary env c =
     (if supportsRTTStatistics env then
        (let es1 = report (c_isP2P c) (avgRTT c) in
         if \<not> c_isP2P c then
           (case calculateAvgRemoteRTT c of
              (avgRemoteRTT, c1) \<Rightarrow>
                (let avgLocalRTT = calculate (avgRTT c1) in
                 if \<not> isNaN avgLocalRTT \<and> \<not> isNaN avgRemoteRTT then
                   (ConnectionAvgStats_resetAvgStats c1,
                    es1 @ [SendEvent ''stat.avg.end2endrtt''
                             (Bare (jsadd avgLocalRTT avgRemoteRTT))])
                 else (ConnectionAvgStats_resetAvgStats c1, es1)))
         else (ConnectionAvgStats_resetAvgStats c, es1))
      else (ConnectionAvgStats_resetAvgStats c, []))"

definition ConnectionAvgStats_calculateAvgStats ::
  "env \<Rightarrow> jsval \<Rightarrow> ConnectionAvgStats \<Rightarrow> error + ConnectionAvgStats \<times> effect list" where
  "ConnectionAvgStats_calculateAvgStats env data c =
     (if \<not> truthy data then Inr (c, [LogError ''No stats'' []])
      else
        (case feedRTT env data (avgRTT c) of
           Inl e \<Rightarrow> Inl e
         | Inr (a, es) \<Rightarrow>
             (let c1 = c\<lparr>avgRTT := a, c_sampleIdx := c_sampleIdx c + 1\<rparr> in
              if c_n c1 \<le> c_sampleIdx c1 then
                (case ConnectionAvgStats_boundary env c1 of
                   (c2, es2) \<Rightarrow> Inr (c2, es @ es2))
              else Inr (c1, es))))"

text \<open>The listener \<^verbatim>\<open>_onConnectionStats(tpc, stats)\<close>; of \<^verbatim>\<open>tpc\<close> only \<^verbatim>\<open>tpc.isP2P\<close> is read.\<close>

definition onConnectionStats ::
  "env \<Rightarrow> bool \<Rightarrow> jsval \<Rightarrow> ConnectionAvgStats \<Rightarrow> error + ConnectionAvgStats \<times> effect list" where
  "onConnectionStats env tpc_isP2P stats c =
     (if c_isP2P c = tpc_isP2P then ConnectionAvgStats_calculateAvgStats env stats c
      else Inr (c, []))"

text \<open>The listener \<^verbatim>\<open>_onUserLeft\<close>: \<^verbatim>\<open>id => this._avgRemoteRTTMap.delete(id)\<close>.\<close>

definition onUserLeft :: "string \<Rightarrow> ConnectionAvgStats \<Rightarrow> ConnectionAvgStats" where
  "onUserLeft pid c = c\<lparr>avgRemoteRTTMap := AList.delete pid (avgRemoteRTTMap c)\<rparr>"

fun isNumber :: "jsval \<Rightarrow> bool" where
  "isNumber (JNum x) = True"
| "isNumber v = False"

definition processRemoteStats ::
  "string \<Rightarrow> jsval \<Rightarrow> ConnectionAvgStats \<Rightarrow> error + ConnectionAvgStats \<times> effect list" where
  "processRemoteStats pid data c =
     (case getProp data ''jvbRTT'' of
        Inl e \<Rightarrow> Inl e
      | Inr jvbRTT \<Rightarrow>
          (let validData = isNumber jvbRTT;
               rttAvg0 = map_of (avgRemoteRTTMap c) pid;
               created = new_AverageStatReport (pid @ ''.stat.rtt'');
               (m, rttAvg) =
                 (if rttAvg0 = None \<and> validData
                  then (AList.update pid created (avgRemoteRTTMap c), Some created)
                  else (avgRemoteRTTMap c, rttAvg0))
           in if validData then
                (case rttAvg of
                   None \<Rightarrow> Inl TypeError
                 | Some a \<Rightarrow>
                     (case addNext jvbRTT a of
                        (a', es) \<Rightarrow> Inr (c\<lparr>avgRemoteRTTMap := AList.update pid a' m\<rparr>, es)))
              else if rttAvg \<noteq> None then Inr (c\<lparr>avgRemoteRTTMap := AList.delete pid m\<rparr>, [])
              else Inr (c\<lparr>avgRemoteRTTMap := m\<rparr>, [])))"

section \<open>AvgRTPStatsReporter\<close>

text \<open>
  The fields the constructor sets after its \<^verbatim>\<open>n > 0\<close> test.  An instance built with
  \<^verbatim>\<open>n <= 0\<close> has none of them (\<open>r_fields = None\<close>): the constructor returns right after
  setting \<^verbatim>\<open>_n\<close>.
\<close>

record ReporterFields =
  sampleIdx :: int
  avgBitrateUp :: AverageStatReport
  avgBitrateDown :: AverageStatReport
  avgBandwidthUp :: AverageStatReport
  avgBandwidthDown :: AverageStatReport
  avgPacketLossTotal :: AverageStatReport
  avgPacketLossUp :: AverageStatReport
  avgPacketLossDown :: AverageStatReport
  avgRemoteFPS :: AverageStatReport
  avgLocalFPS :: AverageStatReport
  avgCQ :: AverageStatReport
  jvbStatsMonitor :: ConnectionAvgStats
  p2pStatsMonitor :: ConnectionAvgStats

record AvgRTPStatsReporter =
  r_n :: int
  r_fields :: "ReporterFields option"

text \<open>
  The outcome of a method that may throw after it has changed its object: the object as
  it is left, the effects so far, and the exception if one was thrown.
\<close>

type_synonym 's outcome = "'s \<times> effect list \<times> error option"

text \<open>The inner loop of \<^verbatim>\<open>_calculateAvgVideoFps\<close>, over the stream ids of one peer.\<close>

fun peerAvg_loop :: "env \<Rightarrow> jsval \<Rightarrow> string list \<Rightarrow> jsnum \<Rightarrow> error + jsnum" where
  "peerAvg_loop env videos [] peerAvg = Inr peerAvg"
| "peerAvg_loop env videos (ssrc # ssrcs) peerAvg =
     (case getProp videos ssrc of
        Inl e \<Rightarrow> Inl e
      | Inr v \<Rightarrow> peerAvg_loop env videos ssrcs (jsadd peerAvg (parseInt10 env v)))"

text \<open>The outer loop, over the peer ids, with \<^verbatim>\<open>peerCount\<close> and \<^verbatim>\<open>subFrameAvg\<close>.\<close>

fun fps_loop ::
  "env \<Rightarrow> jsval \<Rightarrow> bool \<Rightarrow> string list \<Rightarrow> nat \<Rightarrow> jsnum \<Rightarrow> error + nat \<times> jsnum" where
  "fps_loop env frameRate isLocal [] peerCount subFrameAvg = Inr (peerCount, subFrameAvg)"
| "fps_loop env frameRate isLocal (peerID # rest) peerCount subFrameAvg =
     (if (if isLocal then JStr peerID = myUserId env else JStr peerID \<noteq> myUserId env) then
        (case getProp frameRate peerID of
           Inl e \<Rightarrow> Inl e
         | Inr videos \<Rightarrow>
             (case objectKeys videos of
                Inl e \<Rightarrow> Inl e
              | Inr ssrcs \<Rightarrow>
                  if ssrcs \<noteq> [] then
                    (case peerAvg_loop env videos ssrcs (Fin 0) of
                       Inl e \<Rightarrow> Inl e
                     | Inr peerAvg \<Rightarrow>
                         fps_loop env frameRate isLocal rest (peerCount + 1)
                           (jsadd subFrameAvg (jsdiv peerAvg (Fin (real (length ssrcs))))))
                  else fps_loop env frameRate isLocal rest peerCount subFrameAvg))
      else fps_loop env frameRate isLocal rest peerCount subFrameAvg)"

definition calculateAvgVideoFps :: "env \<Rightarrow> jsval \<Rightarrow> bool \<Rightarrow> error + jsval" where
  "calculateAvgVideoFps env frameRate isLocal =
     (case objectKeys frameRate of
        Inl e \<Rightarrow> Inl e
      | Inr peerIDs \<Rightarrow>
          (case fps_loop env frameRate isLocal peerIDs 0 (Fin 0) of
             Inl e \<Rightarrow> Inl e
           | Inr (peerCount, subFrameAvg) \<Rightarrow>
               Inr (JNum (jsdiv subFrameAvg (Fin (real peerCount))))))"

text \<open>
  One statement \<^verbatim>\<open>this._avgX.addNext(arg)\<close> of the accumulation: nothing happens once an
  exception is under way; evaluating the argument may throw; otherwise the average
  \<open>sel\<close> (written back with \<open>upd\<close>) takes the value.
\<close>

definition feed ::
  "(error + jsval) \<Rightarrow> (ReporterFields \<Rightarrow> AverageStatReport) \<Rightarrow>
   ((AverageStatReport \<Rightarrow> AverageStatReport) \<Rightarrow> ReporterFields \<Rightarrow> ReporterFields) \<Rightarrow>
   ReporterFields outcome \<Rightarrow> ReporterFields outcome" where
  "feed arg sel upd oc =
     (case oc of
        (b, es, Some e) \<Rightarrow> (b, es, Some e)
      | (b, es, None) \<Rightarrow>
          (case arg of
             Inl e \<Rightarrow> (b, es, Some e)
           | Inr v \<Rightarrow>
               (case addNext v (sel b) of
                  (a, es') \<Rightarrow> (upd (\<lambda>old. a) b, es @ es', None))))"

text \<open>\<^verbatim>\<open>_resetAvgStats\<close> of the reporter, statement by statement (lines 558 to 569).\<close>

definition AvgRTPStatsReporter_resetAvgStats :: "ReporterFields \<Rightarrow> ReporterFields" where
  "AvgRTPStatsReporter_resetAvgStats b =
     b\<lparr>avgBitrateUp := reset (avgBitrateUp b),
       avgBitrateDown := reset (avgBitrateDown b),
       avgBandwidthUp := reset (avgBandwidthUp b),
       avgBandwidthDown := reset (avgBandwidthDown b),
       avgPacketLossUp := reset (avgPacketLossUp b),
       avgPacketLossDown := reset (avgPacketLossDown b),
       avgRemoteFPS := reset (avgRemoteFPS b),
       avgLocalFPS := reset (avgLocalFPS b),
       avgCQ := reset (avgCQ b),
       sampleIdx := 0\<rparr>"

text \<open>The reports of a window boundary (lines 501 to 512).\<close>

definition boundary_reports :: "env \<Rightarrow> ReporterFields \<Rightarrow> effect list" where
  "boundary_reports env b =
     (let isP2P = isP2PActive env in
      report isP2P (avgBitrateUp b) @ report isP2P (avgBitrateDown b) @
      (if supportsBandwidthStatistics env
       then report isP2P (avgBandwidthUp b) @ report isP2P (avgBandwidthDown b) else []) @
      report isP2P (avgPacketLossUp b) @ report isP2P (avgPacketLossDown b) @
      report isP2P (avgPacketLossTotal b) @ report isP2P (avgRemoteFPS b) @
      report isP2P (avgLocalFPS b) @ report isP2P (avgCQ b))"

text \<open>Lines 478 to 496: the accumulation of one validated sample.\<close>

definition accumulate ::
  "env \<Rightarrow> jsval \<Rightarrow> jsval \<Rightarrow> jsval \<Rightarrow> jsval \<Rightarrow> jsval \<Rightarrow> ReporterFields \<Rightarrow>
     ReporterFields outcome" where
  "accumulate env data bitrate bandwidth packetLoss frameRate b =
     (let oc1 = feed (getProp bitrate ''upload'') avgBitrateUp avgBitrateUp_update (b, [], None);
          oc2 = feed (getProp bitrate ''download'') avgBitrateDown avgBitrateDown_update oc1;
          oc3 = (if supportsBandwidthStatistics env then
                   feed (getProp bandwidth ''download'') avgBandwidthDown avgBandwidthDown_update
                     (feed (getProp bandwidth ''upload'') avgBandwidthUp avgBandwidthUp_update oc2)
                 else oc2);
          oc4 = feed (getProp packetLoss ''upload'') avgPacketLossUp avgPacketLossUp_update oc3;
          oc5 = feed (getProp packetLoss ''download'') avgPacketLossDown
                  avgPacketLossDown_update oc4;
          oc6 = feed (getProp packetLoss ''total'') avgPacketLossTotal
                  avgPacketLossTotal_update oc5;
          oc7 = feed (getProp data ''connectionQuality'') avgCQ avgCQ_update oc6
      in if truthy frameRate then
           feed (calculateAvgVideoFps env frameRate True) avgLocalFPS avgLocalFPS_update
             (feed (calculateAvgVideoFps env frameRate False) avgRemoteFPS
                avgRemoteFPS_update oc7)
         else oc7)"

text \<open>
  \<^verbatim>\<open>_calculateAvgStats(data)\<close> on an initialised instance with window size \<open>n\<close>.
\<close>

definition calculateAvgStats_fields ::
  "env \<Rightarrow> int \<Rightarrow> jsval \<Rightarrow> ReporterFields \<Rightarrow> ReporterFields outcome" where
  \<open>calculateAvgStats_fields env n data b =
     (let isP2P = isP2PActive env; peerCount = participantCount env in
      if \<not> isP2P \<and> peerCount < 1 then (b, [], None)
      else if \<not> truthy data then (b, [LogError ''No stats'' []], None)
      else
        (case (getProp data ''bitrate'', getProp data ''bandwidth'',
               getProp data ''packetLoss'', getProp data ''framerate'') of
           (Inr bitrate, Inr bandwidth, Inr packetLoss, Inr frameRate) \<Rightarrow>
             if \<not> truthy bitrate then (b, [LogError ''No "bitrate"'' []], None)
             else if \<not> truthy bandwidth then (b, [LogError ''No "bandwidth"'' []], None)
             else if \<not> truthy packetLoss then (b, [LogError ''No "packetloss"'' []], None)
             else if \<not> truthy frameRate then (b, [LogError ''No "framerate"'' []], None)
             else
               (case accumulate env data bitrate bandwidth packetLoss frameRate b of
                  (b1, es, Some e) \<Rightarrow> (b1, es, Some e)
                | (b1, es, None) \<Rightarrow>
                    (let b2 = b1\<lparr>sampleIdx := sampleIdx b1 + 1\<rparr> in
                     if n \<le> sampleIdx b2 then
                       (AvgRTPStatsReporter_resetAvgStats b2, es @ boundary_reports env b2, None)
                     else (b2, es, None)))
         | other \<Rightarrow> (b, [], Some TypeError)))\<close>

text \<open>
  The method on any instance: its first statement reads \<^verbatim>\<open>this._conference\<close>, which an
  instance built with \<^verbatim>\<open>n <= 0\<close> does not have.
\<close>

definition AvgRTPStatsReporter_calculateAvgStats ::
  "env \<Rightarrow> jsval \<Rightarrow> AvgRTPStatsReporter \<Rightarrow> AvgRTPStatsReporter outcome" where
  "AvgRTPStatsReporter_calculateAvgStats env data r =
     (case r_fields r of
        None \<Rightarrow> (r, [], Some TypeError)
      | Some b \<Rightarrow>
          (case calculateAvgStats_fields env (r_n r) data b of
             (b', es, x) \<Rightarrow> (r\<lparr>r_fields := Some b'\<rparr>, es, x)))"

text \<open>The listener \<^verbatim>\<open>_onP2PStatusChanged\<close> (lines 406 to 411).\<close>

definition onP2PStatusChanged :: "AvgRTPStatsReporter \<Rightarrow> AvgRTPStatsReporter outcome" where
  "onP2PStatusChanged r =
     (case r_fields r of
        None \<Rightarrow> (r, [LogDebug ''Resetting average stats calculation''], Some TypeError)
      | Some b \<Rightarrow>
          (let b1 = AvgRTPStatsReporter_resetAvgStats b;
               b2 = b1\<lparr>jvbStatsMonitor := ConnectionAvgStats_resetAvgStats (jvbStatsMonitor b1)\<rparr>;
               b3 = b2\<lparr>p2pStatsMonitor := ConnectionAvgStats_resetAvgStats (p2pStatsMonitor b2)\<rparr>
           in (r\<lparr>r_fields := Some b3\<rparr>, [LogDebug ''Resetting average stats calculation''], None)))"

section \<open>The session: listeners and events\<close>

text \<open>
  The conference keeps the listeners the module registers with \<^verbatim>\<open>conference.on\<close> and
  \<^verbatim>\<open>conference.statistics.addConnectionStatsListener\<close>.  Each closure the module creates is
  registered for one event only, so a listener is a token naming the closure:
  \<open>OnConnectionStats isP2P\<close> is \<^verbatim>\<open>_onConnectionStats\<close> of the monitor with that
  \<^verbatim>\<open>isP2P\<close>; \<open>OnUserLeft\<close> and \<open>OnRemoteStatsUpdated\<close> belong to the monitor of the relayed
  (JVB) connection, the only one that creates them.
\<close>

datatype listener =
    OnLocalStatsUpdated
  | OnP2PStatusChanged
  | OnConnectionStats bool
  | OnUserLeft
  | OnRemoteStatsUpdated

datatype event =
    LOCAL_STATS_UPDATED jsval
  | P2P_STATUS
  | CONNECTION_STATS bool jsval
  | USER_LEFT string
  | REMOTE_STATS_UPDATED string jsval

record session =
  listeners :: "listener list"
  reporter :: AvgRTPStatsReporter

text \<open>The listeners a \<^verbatim>\<open>ConnectionAvgStats\<close> registers in its constructor, in order.\<close>

definition ConnectionAvgStats_listeners :: "bool \<Rightarrow> listener list" where
  "ConnectionAvgStats_listeners isP2P =
     OnConnectionStats isP2P # (if \<not> isP2P then [OnUserLeft, OnRemoteStatsUpdated] else [])"

definition new_ReporterFields :: "int \<Rightarrow> ReporterFields" where
  "new_ReporterFields n =
     \<lparr>sampleIdx = 0,
      avgBitrateUp = new_AverageStatReport ''stat.avg.bitrate.upload'',
      avgBitrateDown = new_AverageStatReport ''stat.avg.bitrate.download'',
      avgBandwidthUp = new_AverageStatReport ''stat.avg.bandwidth.upload'',
      avgBandwidthDown = new_AverageStatReport ''stat.avg.bandwidth.download'',
      avgPacketLossTotal = new_AverageStatReport ''stat.avg.packetloss.total'',
      avgPacketLossUp = new_AverageStatReport ''stat.avg.packetloss.upload'',
      avgPacketLossDown = new_AverageStatReport ''stat.avg.packetloss.download'',
      avgRemoteFPS = new_AverageStatReport ''stat.avg.framerate.remote'',
      avgLocalFPS = new_AverageStatReport ''stat.avg.framerate.local'',
      avgCQ = new_AverageStatReport ''stat.avg.cq'',
      jvbStatsMonitor = new_ConnectionAvgStats False n,
      p2pStatsMonitor = new_ConnectionAvgStats True n\<rparr>"

text \<open>
  \<^verbatim>\<open>new AvgRTPStatsReporter(conference, n)\<close> on a conference that has none of the
  module's listeners yet.
\<close>

definition new_AvgRTPStatsReporter :: "int \<Rightarrow> session \<times> effect list" where
  "new_AvgRTPStatsReporter n =
     (if 0 < n then
        (\<lparr>listeners = [OnLocalStatsUpdated, OnP2PStatusChanged]
                        @ ConnectionAvgStats_listeners False
                        @ ConnectionAvgStats_listeners True,
          reporter = \<lparr>r_n = n, r_fields = Some (new_ReporterFields n)\<rparr>\<rparr>,
         [LogInfo (''Avg RTP stats will be calculated every '' @ show_int n @ '' samples'')])
      else
        (\<lparr>listeners = [], reporter = \<lparr>r_n = n, r_fields = None\<rparr>\<rparr>,
         [LogInfo ''Avg RTP stats reports are disabled.'']))"

text \<open>
  A handler of one of the two monitors, run on the monitor the reporter holds.  A
  reporter without fields has no monitor, and the constructor then registers no such
  handler; the case is given the error a read of the missing monitor would throw.
\<close>

definition on_monitor ::
  "bool \<Rightarrow> (ConnectionAvgStats \<Rightarrow> error + ConnectionAvgStats \<times> effect list) \<Rightarrow>
   AvgRTPStatsReporter \<Rightarrow> AvgRTPStatsReporter outcome" where
  "on_monitor isP2P h r =
     (case r_fields r of
        None \<Rightarrow> (r, [], Some TypeError)
      | Some b \<Rightarrow>
          (case h (if isP2P then p2pStatsMonitor b else jvbStatsMonitor b) of
             Inl e \<Rightarrow> (r, [], Some e)
           | Inr (c, es) \<Rightarrow>
               (r\<lparr>r_fields := Some (if isP2P then b\<lparr>p2pStatsMonitor := c\<rparr>
                                  else b\<lparr>jvbStatsMonitor := c\<rparr>)\<rparr>, es, None)))"

text \<open>
  What a registered listener does when an event is emitted.  A listener is called for
  the event it was registered for, and not at all for the others.
\<close>

fun deliver :: "env \<Rightarrow> listener \<Rightarrow> event \<Rightarrow> AvgRTPStatsReporter \<Rightarrow> AvgRTPStatsReporter outcome" where
  "deliver env OnLocalStatsUpdated (LOCAL_STATS_UPDATED data) r =
     AvgRTPStatsReporter_calculateAvgStats env data r"
| "deliver env OnP2PStatusChanged P2P_STATUS r = onP2PStatusChanged r"
| "deliver env (OnConnectionStats isP2P) (CONNECTION_STATS tpc_isP2P stats) r =
     on_monitor isP2P (onConnectionStats env tpc_isP2P stats) r"
| "deliver env OnUserLeft (USER_LEFT pid) r =
     on_monitor False (\<lambda>c. Inr (onUserLeft pid c, [])) r"
| "deliver env OnRemoteStatsUpdated (REMOTE_STATS_UPDATED pid data) r =
     on_monitor False (processRemoteStats pid data) r"
| "deliver env l ev r = (r, [], None)"

text \<open>
  Emitting an event calls the listeners in the order of their registration; an
  exception thrown by one ends the emission.
\<close>

fun fire_listeners ::
  "env \<Rightarrow> event \<Rightarrow> listener list \<Rightarrow> AvgRTPStatsReporter outcome \<Rightarrow> AvgRTPStatsReporter outcome" where
  "fire_listeners env ev [] oc = oc"
| "fire_listeners env ev (l # ls) (r, es, Some e) = (r, es, Some e)"
| "fire_listeners env ev (l # ls) (r, es, None) =
     (case deliver env l ev r of
        (r', es', x) \<Rightarrow> fire_listeners env ev ls (r', es @ es', x))"

definition fire :: "env \<Rightarrow> event \<Rightarrow> session \<Rightarrow> session outcome" where
  "fire env ev s =
     (case fire_listeners env ev (listeners s) (reporter s, [], None) of
        (r, es, x) \<Rightarrow> (s\<lparr>reporter := r\<rparr>, es, x))"

text \<open>A sequence of events, each with the environment it is handled in.\<close>

fun run :: "(env \<times> event) list \<Rightarrow> session \<Rightarrow> session" where
  "run [] s = s"
| "run ((env, ev) # rest) s = run rest (fst (fire env ev s))"

text \<open>
  \<^verbatim>\<open>dispose()\<close> of a \<^verbatim>\<open>ConnectionAvgStats\<close> and of the reporter: the listeners are
  removed in the order of the source.  The reporter's first statement reads
  \<^verbatim>\<open>this._conference.off\<close>.
\<close>

definition ConnectionAvgStats_dispose :: "bool \<Rightarrow> listener list \<Rightarrow> listener list" where
  "ConnectionAvgStats_dispose isP2P ls =
     (let ls1 = remove1 (OnConnectionStats isP2P) ls in
      if \<not> isP2P then remove1 OnUserLeft (remove1 OnRemoteStatsUpdated ls1) else ls1)"

definition dispose :: "session \<Rightarrow> session outcome" where
  "dispose s =
     (case r_fields (reporter s) of
        None \<Rightarrow> (s, [], Some TypeError)
      | Some b \<Rightarrow>
          (s\<lparr>listeners :=
               ConnectionAvgStats_dispose True
                 (ConnectionAvgStats_dispose False
                    (remove1 OnLocalStatsUpdated (remove1 OnP2PStatusChanged (listeners s))))\<rparr>,
           [], None))"

section \<open>Reference notions for the cross-participant average\<close>




section \<open>Reference notions for the local-sample payload\<close>

text \<open>
  The four top-level fields \<^verbatim>\<open>_calculateAvgStats\<close> requires of a local sample, and
  what it means for a payload to lack one: reading it does not give a value.
\<close>

definition required_fields :: "string list" where
  "required_fields = [''bitrate'', ''bandwidth'', ''packetLoss'', ''framerate'']"

definition lacksField :: "jsval \<Rightarrow> string \<Rightarrow> bool" where
  "lacksField data k = (case getProp data k of Inl e \<Rightarrow> True | Inr v \<Rightarrow> v = JUndefined)"

section \<open>The window invariant\<close>

text \<open>
  What holds of an enabled reporter between two events: every sample index lies in the
  window, every average has counted a non-negative number of samples, and both monitors
  have the reporter's window size.
\<close>

definition count_ok :: "AverageStatReport \<Rightarrow> bool" where
  "count_ok a = (0 \<le> count a)"

definition monitor_inv :: "int \<Rightarrow> ConnectionAvgStats \<Rightarrow> bool" where
  "monitor_inv n c =
     (c_n c = n \<and> 0 \<le> c_sampleIdx c \<and> c_sampleIdx c < n \<and> count_ok (avgRTT c)
      \<and> list_all (\<lambda>e. count_ok (snd e)) (avgRemoteRTTMap c))"

definition averages_ok :: "ReporterFields \<Rightarrow> bool" where
  "averages_ok b =
     (count_ok (avgBitrateUp b) \<and> count_ok (avgBitrateDown b)
      \<and> count_ok (avgBandwidthUp b) \<and> count_ok (avgBandwidthDown b)
      \<and> count_ok (avgPacketLossTotal b) \<and> count_ok (avgPacketLossUp b)
      \<and> count_ok (avgPacketLossDown b) \<and> count_ok (avgRemoteFPS b)
      \<and> count_ok (avgLocalFPS b) \<and> count_ok (avgCQ b))"

definition fields_inv :: "int \<Rightarrow> ReporterFields \<Rightarrow> bool" where
  "fields_inv n b =
     (0 \<le> sampleIdx b \<and> sampleIdx b < n \<and> averages_ok b
      \<and> monitor_inv n (jvbStatsMonitor b) \<and> monitor_inv n (p2pStatsMonitor b))"

definition reporter_inv :: "AvgRTPStatsReporter \<Rightarrow> bool" where
  "reporter_inv r = (case r_fields r of None \<Rightarrow> False | Some b \<Rightarrow> fields_inv (r_n r) b)"

text \<open>An average that holds no accumulation.\<close>

definition is_reset :: "AverageStatReport \<Rightarrow> bool" where
  "is_reset a = (count a = 0 \<and> sum' a = Fin 0)"

section \<open>Sample inputs\<close>

text \<open>Concrete environments and payloads, used where a statement is run on an input.\<close>

definition parseInt10_numbers :: "jsval \<Rightarrow> jsnum" where
  "parseInt10_numbers v = (case v of JNum x \<Rightarrow> x | other \<Rightarrow> NaN)"

definition env_sample :: "bool \<Rightarrow> nat \<Rightarrow> env" where
  "env_sample isP2P peers =
     \<lparr>isP2PActive = isP2P, participantCount = peers, myUserId = JStr ''me'',
      supportsRTTStatistics = True, supportsBandwidthStatistics = True,
      parseInt10 = parseInt10_numbers\<rparr>"

definition local_sample :: "real \<Rightarrow> jsval" where
  "local_sample up =
     JObj [(''bitrate'', JObj [(''upload'', JNum (Fin up)), (''download'', JNum (Fin 1))]),
           (''bandwidth'', JObj [(''upload'', JNum (Fin 2)), (''download'', JNum (Fin 3))]),
           (''packetLoss'',
              JObj [(''upload'', JNum (Fin 4)), (''download'', JNum (Fin 6)),
                    (''total'', JNum (Fin 5))]),
           (''framerate'',
              JObj [(''me'', JObj [(''s1'', JNum (Fin 30))]),
                    (''peer'', JObj [(''s2'', JNum (Fin 15)), (''s3'', JNum (Fin 25))])]),
           (''connectionQuality'', JNum (Fin 80))]"

definition rtt_sample :: "real \<Rightarrow> jsval" where
  "rtt_sample rtt = JObj [(''transport'', JArr [JObj [(''rtt'', JNum (Fin rtt))]])]"

text \<open>
  A monitor of the relayed connection one sample before its window boundary, with a
  local round-trip sum of 45 over one sample and two participants whose averages are
  40 and 60.
\<close>

definition relayed_monitor_sample :: ConnectionAvgStats where
  "relayed_monitor_sample =
     \<lparr>c_isP2P = False, c_n = 2, c_sampleIdx = 1,
      avgRTT = \<lparr>name = ''stat.avg.rtt'', count = 1, sum' = Fin 45\<rparr>,
      avgRemoteRTTMap =
        [(''alice'', \<lparr>name = ''alice.stat.rtt'', count = 2, sum' = Fin 80\<rparr>),
         (''bob'', \<lparr>name = ''bob.stat.rtt'', count = 1, sum' = Fin 60\<rparr>)]\<rparr>"

text \<open>A mixed sequence of events: two local samples, the second closing a window of two.\<close>

definition events_sample :: "(env \<times> event) list" where
  "events_sample =
     [(env_sample False 1, LOCAL_STATS_UPDATED (local_sample 100)),
      (env_sample False 1, CONNECTION_STATS False (rtt_sample 50)),
      (env_sample False 1, REMOTE_STATS_UPDATED ''alice'' (JObj [(''jvbRTT'', JNum (Fin 40))])),
      (env_sample False 1, LOCAL_STATS_UPDATED (local_sample 200)),
      (env_sample True 1, P2P_STATUS),
      (env_sample True 1, LOCAL_STATS_UPDATED (local_sample 300))]"

text \<open>A reporter with window size 3, two samples into its window.\<close>

definition mid_window_fields :: ReporterFields where
  "mid_window_fields =
     (new_ReporterFields 3)
       \<lparr>sampleIdx := 2,
        avgCQ := \<lparr>name = ''stat.avg.cq'', count = 2, sum' = Fin 160\<rparr>,
        avgPacketLossTotal := \<lparr>name = ''stat.avg.packetloss.total'', count = 2, sum' = Fin 10\<rparr>,
        jvbStatsMonitor := relayed_monitor_sample\<lparr>c_n := 3\<rparr>\<rparr>"

section \<open>Properties of AverageStatReport\<close>

lemma jsadd_NaN_right [simp]: "jsadd x NaN = NaN"
  by (cases x) simp_all


lemma jsadd_zero_right [simp]: "jsadd x (Fin 0) = x"
  by (cases x) simp_all

lemma jsadd_zero_left [simp]: "jsadd (Fin 0) x = x"
  by (cases x) simp_all






text \<open>
  Claim C7.  \<^verbatim>\<open>addNext(v)\<close> with a value whose \<^verbatim>\<open>typeof\<close> is not \<^verbatim>\<open>'number'\<close>
  leaves the instance as it was, \<open>count\<close> and \<open>sum\<close> included, and logs the value as
  invalid.
\<close>

theorem addNext_ignores_non_number:
  "\<not> isNumber v \<Longrightarrow>
     fst (addNext v r) = r
     \<and> count (fst (addNext v r)) = count r
     \<and> sum' (fst (addNext v r)) = sum' r
     \<and> snd (addNext v r) =
         [LogError (name r @ '' - invalid value for idx: '' @ show_int (count r)) [v]]"
  by (cases v) simp_all

theorem addNext_ignores_non_number_witness:
  "\<not> isNumber (JStr ''12'')
   \<and> fst (addNext (JStr ''12'') \<lparr>name = ''stat.avg.rtt'', count = 2, sum' = Fin 90\<rparr>)
       = \<lparr>name = ''stat.avg.rtt'', count = 2, sum' = Fin 90\<rparr>
   \<and> snd (addNext (JStr ''12'') \<lparr>name = ''stat.avg.rtt'', count = 2, sum' = Fin 90\<rparr>)
       = [LogError ''stat.avg.rtt - invalid value for idx: 2'' [JStr ''12'']]"
proof -
  have h: "\<not> isNumber (JStr ''12'')" by simp
  have s: "show_int 2 = ''2''" by code_simp
  show ?thesis
    using addNext_ignores_non_number
      [OF h, of "\<lparr>name = ''stat.avg.rtt'', count = 2, sum' = Fin 90\<rparr>"] s
    by simp
qed

lemma addNext_keeps_NaN: "sum' r = NaN \<Longrightarrow> sum' (fst (addNext v r)) = NaN"
  by (cases v) simp_all

lemma addNext_count_mono: "count r \<le> count (fst (addNext v r))"
  by (cases v) simp_all

lemma addNext_all_keeps_NaN: "sum' r = NaN \<Longrightarrow> sum' (addNext_all vs r) = NaN"
  by (induction vs arbitrary: r) (simp_all add: addNext_keeps_NaN)

lemma addNext_all_count_mono: "count r \<le> count (addNext_all vs r)"
proof (induction vs arbitrary: r)
  case Nil
  show ?case by simp
next
  case (Cons v vs)
  have "count r \<le> count (fst (addNext v r))" by (rule addNext_count_mono)
  also have "\<dots> \<le> count (addNext_all vs (fst (addNext v r)))" by (rule Cons.IH)
  finally show ?case by simp
qed

text \<open>
  Claim C9.  \<^verbatim>\<open>addNext\<close> accepts not-a-number and the infinities: the value passes the
  \<^verbatim>\<open>typeof\<close> check, \<open>count\<close> grows by one and the value is added to \<open>sum\<close>.  Once
  not-a-number has been fed, \<^verbatim>\<open>calculate()\<close> returns not-a-number after any further
  \<^verbatim>\<open>addNext\<close> calls \<open>vs\<close> (that is, until the next reset), while the samples are
  counted.
\<close>

theorem addNext_accepts_non_finite:
  "addNext (JNum NaN) r = (r\<lparr>sum' := NaN, count := count r + 1\<rparr>, [])
   \<and> addNext (JNum PosInf) r = (r\<lparr>sum' := jsadd (sum' r) PosInf, count := count r + 1\<rparr>, [])
   \<and> addNext (JNum NegInf) r = (r\<lparr>sum' := jsadd (sum' r) NegInf, count := count r + 1\<rparr>, [])
   \<and> calculate (addNext_all vs (fst (addNext (JNum NaN) r))) = NaN
   \<and> count r + 1 \<le> count (addNext_all vs (fst (addNext (JNum NaN) r)))"
proof -
  let ?r1 = "fst (addNext (JNum NaN) r)"
  have s: "sum' ?r1 = NaN" by simp
  have c: "count ?r1 = count r + 1" by simp
  have "calculate (addNext_all vs ?r1) = NaN"
    unfolding calculate_def addNext_all_keeps_NaN [OF s] by simp
  moreover have "count r + 1 \<le> count (addNext_all vs ?r1)"
    using addNext_all_count_mono [of ?r1 vs] c by simp
  ultimately show ?thesis by simp
qed

theorem addNext_accepts_non_finite_witness:
  "calculate (addNext_all [JNum (Fin 10), JNum (Fin 20)]
      (fst (addNext (JNum NaN) (new_AverageStatReport ''stat.avg.cq'')))) = NaN
   \<and> count (addNext_all [JNum (Fin 10), JNum (Fin 20)]
      (fst (addNext (JNum NaN) (new_AverageStatReport ''stat.avg.cq'')))) = 3"
  using addNext_accepts_non_finite
    [of "new_AverageStatReport ''stat.avg.cq''" "[JNum (Fin 10), JNum (Fin 20)]"]
  by (simp add: new_AverageStatReport_def)

section \<open>Properties of ConnectionAvgStats\<close>

















section \<open>Properties of AvgRTPStatsReporter\<close>

lemma deliver_other_listener:
  "l \<noteq> OnLocalStatsUpdated \<Longrightarrow> deliver env l (LOCAL_STATS_UPDATED data) r = (r, [], None)"
  by (cases l) simp_all

lemma fire_listeners_local_unchanged:
  assumes "AvgRTPStatsReporter_calculateAvgStats env data r = (r, es1, None)"
  shows "fst (fire_listeners env (LOCAL_STATS_UPDATED data) ls (r, es, None)) = r
         \<and> snd (snd (fire_listeners env (LOCAL_STATS_UPDATED data) ls (r, es, None))) = None"
proof (induction ls arbitrary: es)
  case Nil
  show ?case by simp
next
  case (Cons l ls)
  show ?case
  proof (cases "l = OnLocalStatsUpdated")
    case True
    then show ?thesis using assms Cons.IH by simp
  next
    case False
    then show ?thesis using deliver_other_listener [OF False] Cons.IH by simp
  qed
qed

lemma fire_listeners_local_silent:
  assumes "AvgRTPStatsReporter_calculateAvgStats env data r = (r, [], None)"
  shows "fire_listeners env (LOCAL_STATS_UPDATED data) ls (r, es, None) = (r, es, None)"
proof (induction ls)
  case Nil
  show ?case by simp
next
  case (Cons l ls)
  show ?case
  proof (cases "l = OnLocalStatsUpdated")
    case True
    then show ?thesis using assms Cons.IH by simp
  next
    case False
    then show ?thesis using deliver_other_listener [OF False] Cons.IH by simp
  qed
qed

text \<open>
  Claim C2, as the code has it.  The local-sample handler returns at once when the
  session is in relayed mode (\<^verbatim>\<open>isP2PActive()\<close> is false) and there is no other
  participant: nothing is accumulated, \<open>sampleIdx\<close> is unchanged, nothing is logged or
  sent and nothing is thrown.
\<close>

theorem relayed_mode_alone_short_circuits:
  assumes "\<not> isP2PActive env" and "participantCount env = 0" and "r_fields r = Some b"
  shows "calculateAvgStats_fields env (r_n r) data b = (b, [], None)
         \<and> AvgRTPStatsReporter_calculateAvgStats env data r = (r, [], None)
         \<and> (reporter s = r \<longrightarrow> fire env (LOCAL_STATS_UPDATED data) s = (s, [], None))"
proof -
  have body: "calculateAvgStats_fields env (r_n r) data b = (b, [], None)"
    using assms by (simp add: calculateAvgStats_fields_def)
  have meth: "AvgRTPStatsReporter_calculateAvgStats env data r = (r, [], None)"
    using assms body by (simp add: AvgRTPStatsReporter_calculateAvgStats_def)
  have "fire env (LOCAL_STATS_UPDATED data) s = (s, [], None)" if "reporter s = r"
    using fire_listeners_local_silent [OF meth, of "listeners s" "[]"] that
    by (simp add: fire_def)
  with body meth show ?thesis by blast
qed

theorem relayed_mode_alone_short_circuits_witness:
  "\<not> isP2PActive (env_sample False 0) \<and> participantCount (env_sample False 0) = 0
   \<and> r_fields (reporter (fst (new_AvgRTPStatsReporter 3))) = Some (new_ReporterFields 3)
   \<and> fire (env_sample False 0) (LOCAL_STATS_UPDATED (local_sample 100))
        (fst (new_AvgRTPStatsReporter 3))
       = (fst (new_AvgRTPStatsReporter 3), [], None)"
  using relayed_mode_alone_short_circuits [where env = "env_sample False 0"
      and r = "reporter (fst (new_AvgRTPStatsReporter 3))" and b = "new_ReporterFields 3"
      and s = "fst (new_AvgRTPStatsReporter 3)" and data = "local_sample 100"]
  by (simp add: env_sample_def new_AvgRTPStatsReporter_def)

text \<open>
  Claim C2 as stated fails: in direct mode with no other participant the handler does
  not return early.  A complete sample is accumulated and \<open>sampleIdx\<close> becomes 1.
\<close>

theorem direct_mode_alone_accumulates:
  "isP2PActive (env_sample True 0) \<and> participantCount (env_sample True 0) = 0
   \<and> map_option sampleIdx (r_fields (fst
        (AvgRTPStatsReporter_calculateAvgStats (env_sample True 0) (local_sample 100)
           (reporter (fst (new_AvgRTPStatsReporter 3)))))) = Some 1
   \<and> map_option avgBitrateUp (r_fields (fst
        (AvgRTPStatsReporter_calculateAvgStats (env_sample True 0) (local_sample 100)
           (reporter (fst (new_AvgRTPStatsReporter 3))))))
       = Some \<lparr>name = ''stat.avg.bitrate.upload'', count = 1, sum' = Fin 100\<rparr>"
  by code_simp

lemma getProp_total: "\<not> nullish v \<Longrightarrow> \<exists>x. getProp v k = Inr x"
  by (simp add: getProp_def split: option.splits)

lemma nullish_not_truthy: "nullish v \<Longrightarrow> \<not> truthy v"
  by (cases v) simp_all

lemma missing_field_dropped:
  assumes k: "k \<in> set required_fields" and l: "lacksField data k"
  shows "\<exists>es. calculateAvgStats_fields env n data b = (b, es, None)
          \<and> (if \<not> isP2PActive env \<and> participantCount env < 1 then es = []
              else \<exists>msg. es = [LogError msg []])"
proof (cases "nullish data")
  case True
  then show ?thesis
    by (simp add: calculateAvgStats_fields_def nullish_not_truthy)
next
  case False
  obtain v1 v2 v3 v4 where g:
    "getProp data ''bitrate'' = Inr v1" "getProp data ''bandwidth'' = Inr v2"
    "getProp data ''packetLoss'' = Inr v3" "getProp data ''framerate'' = Inr v4"
    using getProp_total [OF False] by metis
  from k l g have "\<not> truthy v1 \<or> \<not> truthy v2 \<or> \<not> truthy v3 \<or> \<not> truthy v4"
    by (auto simp: required_fields_def lacksField_def)
  then show ?thesis
    using g by (auto simp: calculateAvgStats_fields_def)
qed

text \<open>
  Claim C6, as the code has it.  A local sample that lacks one of the four required
  top-level fields is dropped as a whole: the reporter is left exactly as it was (no
  average changes, \<open>sampleIdx\<close> is not incremented), nothing is thrown, and the
  samples that follow are processed as if it had not been delivered.  One error is
  logged, unless the handler has already returned because the session is in relayed
  mode with no other participant; then nothing is logged.
\<close>

theorem missing_field_drops_sample:
  assumes k: "k \<in> set required_fields" and l: "lacksField data k"
    and r: "r_fields r = Some b"
  shows "\<exists>es. calculateAvgStats_fields env (r_n r) data b = (b, es, None)
          \<and> AvgRTPStatsReporter_calculateAvgStats env data r = (r, es, None)
          \<and> (if \<not> isP2PActive env \<and> participantCount env < 1 then es = []
              else \<exists>msg. es = [LogError msg []])
          \<and> (reporter s = r \<longrightarrow>
                fst (fire env (LOCAL_STATS_UPDATED data) s) = s
                \<and> snd (snd (fire env (LOCAL_STATS_UPDATED data) s)) = None
                \<and> run ((env, LOCAL_STATS_UPDATED data) # rest) s = run rest s)"
proof -
  obtain es where body: "calculateAvgStats_fields env (r_n r) data b = (b, es, None)"
    and logged: "if \<not> isP2PActive env \<and> participantCount env < 1 then es = []
              else \<exists>msg. es = [LogError msg []]"
    using missing_field_dropped [OF k l, of env "r_n r" b] by blast
  have meth: "AvgRTPStatsReporter_calculateAvgStats env data r = (r, es, None)"
    using r body by (simp add: AvgRTPStatsReporter_calculateAvgStats_def)
  have same: "fst (fire env (LOCAL_STATS_UPDATED data) s) = s
      \<and> snd (snd (fire env (LOCAL_STATS_UPDATED data) s)) = None" if "reporter s = r"
    using fire_listeners_local_unchanged [OF meth, of "listeners s" "[]"] that
    by (cases "fire_listeners env (LOCAL_STATS_UPDATED data) (listeners s) (r, [], None)")
      (simp add: fire_def)
  then have "run ((env, LOCAL_STATS_UPDATED data) # rest) s = run rest s" if "reporter s = r"
    using that by simp
  with body meth logged same show ?thesis by blast
qed

theorem missing_field_drops_sample_witness:
  \<open>''packetLoss'' \<in> set required_fields
   \<and> lacksField (JObj [(''bitrate'', JObj []), (''bandwidth'', JObj [])]) ''packetLoss''
   \<and> r_fields (reporter (fst (new_AvgRTPStatsReporter 3))) = Some (new_ReporterFields 3)
   \<and> AvgRTPStatsReporter_calculateAvgStats (env_sample True 1)
        (JObj [(''bitrate'', JObj []), (''bandwidth'', JObj [])])
        (reporter (fst (new_AvgRTPStatsReporter 3)))
      = (reporter (fst (new_AvgRTPStatsReporter 3)), [LogError ''No "packetloss"'' []], None)
   \<and> run [(env_sample True 1,
             LOCAL_STATS_UPDATED (JObj [(''bitrate'', JObj []), (''bandwidth'', JObj [])])),
           (env_sample True 1, LOCAL_STATS_UPDATED (local_sample 100))]
          (fst (new_AvgRTPStatsReporter 3))
      = run [(env_sample True 1, LOCAL_STATS_UPDATED (local_sample 100))]
          (fst (new_AvgRTPStatsReporter 3))\<close>
proof -
  have k: "''packetLoss'' \<in> set required_fields"
    by (simp add: required_fields_def)
  have l: "lacksField (JObj [(''bitrate'', JObj []), (''bandwidth'', JObj [])]) ''packetLoss''"
    by (simp add: lacksField_def getProp_def)
  have r: "r_fields (reporter (fst (new_AvgRTPStatsReporter 3))) = Some (new_ReporterFields 3)"
    by (simp add: new_AvgRTPStatsReporter_def)
  have c: \<open>AvgRTPStatsReporter_calculateAvgStats (env_sample True 1)
        (JObj [(''bitrate'', JObj []), (''bandwidth'', JObj [])])
        (reporter (fst (new_AvgRTPStatsReporter 3)))
      = (reporter (fst (new_AvgRTPStatsReporter 3)), [LogError ''No "packetloss"'' []], None)\<close>
    by code_simp
  show ?thesis
    using missing_field_drops_sample [OF k l r, where env = "env_sample True 1"
        and s = "fst (new_AvgRTPStatsReporter 3)"
        and rest = "[(env_sample True 1, LOCAL_STATS_UPDATED (local_sample 100))]"]
      k l r c
    by simp
qed

text \<open>
  Claim C6 as stated fails where it says that an error is logged: in relayed mode with
  no other participant the handler returns before it looks at the payload, and a sample
  without any field is dropped without a log entry.
\<close>

theorem missing_field_unlogged_when_alone:
  "''bitrate'' \<in> set required_fields \<and> lacksField (JObj []) ''bitrate''
   \<and> AvgRTPStatsReporter_calculateAvgStats (env_sample False 0) (JObj [])
        (reporter (fst (new_AvgRTPStatsReporter 3)))
      = (reporter (fst (new_AvgRTPStatsReporter 3)), [], None)"
  by code_simp

text \<open>
  Claim C3, as the code has it.  A reporter constructed with a window size \<open>n \<le> 0\<close>
  registers no listener and creates none of its fields, the two monitors included; the
  constructor only logs.  So no event delivered by the session reaches it: each event,
  and each sequence of events, leaves the session as it was, with no effect and no
  exception.
\<close>

theorem disabled_reporter_inert:
  assumes "n \<le> 0"
  shows "listeners (fst (new_AvgRTPStatsReporter n)) = []
         \<and> reporter (fst (new_AvgRTPStatsReporter n)) = \<lparr>r_n = n, r_fields = None\<rparr>
         \<and> list_all (\<lambda>e. \<not> isSendEvent e) (snd (new_AvgRTPStatsReporter n))
         \<and> fire env ev (fst (new_AvgRTPStatsReporter n)) = (fst (new_AvgRTPStatsReporter n), [], None)
         \<and> run evs (fst (new_AvgRTPStatsReporter n)) = fst (new_AvgRTPStatsReporter n)"
proof -
  let ?s = "fst (new_AvgRTPStatsReporter n)"
  have ls: "listeners ?s = []" and rp: "reporter ?s = \<lparr>r_n = n, r_fields = None\<rparr>"
    and lg: "list_all (\<lambda>e. \<not> isSendEvent e) (snd (new_AvgRTPStatsReporter n))"
    using assms by (simp_all add: new_AvgRTPStatsReporter_def)
  have f: "fire env' ev' ?s = (?s, [], None)" for env' ev'
    by (simp add: fire_def ls)
  have "run evs' ?s = ?s" for evs'
  proof (induction evs')
    case Nil
    show ?case by simp
  next
    case (Cons x xs)
    obtain env' ev' where x: "x = (env', ev')" by (cases x)
    show ?case using Cons.IH by (simp add: x f)
  qed
  with ls rp lg f show ?thesis by blast
qed

theorem disabled_reporter_inert_witness:
  "(0::int) \<le> 0
   \<and> listeners (fst (new_AvgRTPStatsReporter 0)) = []
   \<and> r_fields (reporter (fst (new_AvgRTPStatsReporter 0))) = None
   \<and> run [(env_sample True 1, LOCAL_STATS_UPDATED (local_sample 100)),
           (env_sample True 1, P2P_STATUS),
           (env_sample True 1, CONNECTION_STATS True (rtt_sample 30))]
        (fst (new_AvgRTPStatsReporter 0))
      = fst (new_AvgRTPStatsReporter 0)"
proof -
  have h: "(0::int) \<le> 0" by simp
  show ?thesis
    using disabled_reporter_inert [OF h, where evs =
        "[(env_sample True 1, LOCAL_STATS_UPDATED (local_sample 100)),
          (env_sample True 1, P2P_STATUS),
          (env_sample True 1, CONNECTION_STATS True (rtt_sample 30))]"]
    by simp
qed

text \<open>
  Claim C3 as stated fails for the methods called on the instance itself: on an instance
  built with window size 0, \<^verbatim>\<open>dispose()\<close> and \<^verbatim>\<open>_calculateAvgStats(data)\<close>
  throw a \<^verbatim>\<open>TypeError\<close>, since \<^verbatim>\<open>this._conference\<close> was never set.
\<close>

theorem disabled_reporter_dispose_throws:
  "snd (snd (dispose (fst (new_AvgRTPStatsReporter 0)))) = Some TypeError
   \<and> snd (snd (AvgRTPStatsReporter_calculateAvgStats (env_sample True 1) (local_sample 100)
        (reporter (fst (new_AvgRTPStatsReporter 0))))) = Some TypeError"
  by (simp add: dispose_def new_AvgRTPStatsReporter_def AvgRTPStatsReporter_calculateAvgStats_def)

section \<open>The window invariant is kept\<close>

lemma count_ok_addNext: "count_ok a \<Longrightarrow> count_ok (fst (addNext v a))"
  by (cases v) (simp_all add: count_ok_def)

lemma count_ok_reset: "count_ok (reset a)"
  by (simp add: count_ok_def reset_def)

lemma count_ok_new: "count_ok (new_AverageStatReport nm)"
  by (simp add: count_ok_def new_AverageStatReport_def)

lemma feedRTT_count_ok:
  "feedRTT env data a0 = Inr (a, es) \<Longrightarrow> count_ok a0 \<Longrightarrow> count_ok a"
  using count_ok_addNext [of a0]
  by (auto simp: feedRTT_def count_ok_reset split: if_splits sum.splits)
    (metis fst_conv)+

lemma monitor_inv_boundary:
  "c_n c = n \<Longrightarrow> 0 < n \<Longrightarrow> monitor_inv n (fst (ConnectionAvgStats_boundary env c))"
  by (auto simp: ConnectionAvgStats_boundary_def ConnectionAvgStats_resetAvgStats_def
      calculateAvgRemoteRTT_def monitor_inv_def count_ok_reset Let_def split: prod.splits)

lemma monitor_inv_calculateAvgStats:
  assumes inv: "monitor_inv n c"
    and run: "ConnectionAvgStats_calculateAvgStats env data c = Inr (c', es)"
  shows "monitor_inv n c'"
proof (cases "truthy data")
  case False
  with run inv show ?thesis by (simp add: ConnectionAvgStats_calculateAvgStats_def)
next
  case True
  from inv have n: "0 < n" and cn: "c_n c = n" by (auto simp: monitor_inv_def)
  from run True obtain a es0 where f: "feedRTT env data (avgRTT c) = Inr (a, es0)"
    by (auto simp: ConnectionAvgStats_calculateAvgStats_def split: sum.splits)
  have a: "count_ok a"
    using feedRTT_count_ok [OF f] inv by (simp add: monitor_inv_def)
  let ?c1 = "c\<lparr>avgRTT := a, c_sampleIdx := c_sampleIdx c + 1\<rparr>"
  show ?thesis
  proof (cases "c_n c \<le> c_sampleIdx c + 1")
    case True
    have "c' = fst (ConnectionAvgStats_boundary env ?c1)"
      using run \<open>truthy data\<close> f True
      by (auto simp: ConnectionAvgStats_calculateAvgStats_def split: prod.splits)
    then show ?thesis
      using monitor_inv_boundary [of ?c1 n env] cn n by simp
  next
    case False
    then have "c' = ?c1"
      using run \<open>truthy data\<close> f
      by (auto simp: ConnectionAvgStats_calculateAvgStats_def)
    then show ?thesis
      using inv a False by (simp add: monitor_inv_def)
  qed
qed

lemma list_all_update:
  "list_all P m \<Longrightarrow> P (k, v) \<Longrightarrow> list_all P (AList.update k v m)"
  by (induction m) auto

lemma list_all_delete: "list_all P m \<Longrightarrow> list_all P (AList.delete k m)"
  by (induction m) auto

lemma list_all_map_of:
  "list_all (\<lambda>e. Q (snd e)) m \<Longrightarrow> map_of m k = Some v \<Longrightarrow> Q v"
  by (induction m) (auto split: if_splits)

lemma monitor_inv_onUserLeft: "monitor_inv n c \<Longrightarrow> monitor_inv n (onUserLeft pid c)"
  by (simp add: monitor_inv_def onUserLeft_def list_all_delete)

lemma monitor_inv_processRemoteStats:
  assumes inv: "monitor_inv n c"
    and run: "processRemoteStats pid data c = Inr (c', es)"
  shows "monitor_inv n c'"
proof -
  let ?P = "\<lambda>e. count_ok (snd e)"
  from inv have m: "list_all ?P (avgRemoteRTTMap c)" by (simp add: monitor_inv_def)
  have ok: "count_ok a" if "map_of (avgRemoteRTTMap c) pid = Some a" for a
    using list_all_map_of [OF m that] .
  have add_new: "count_ok a'"
    if "addNext v (new_AverageStatReport nm) = (a', es')" for v nm a' es'
    using count_ok_addNext [OF count_ok_new, of v nm] that by simp
  have add_old: "count_ok a'"
    if "map_of (avgRemoteRTTMap c) pid = Some a" "addNext v a = (a', es')" for a v a' es'
    using count_ok_addNext [OF ok, of a v] that by simp
  show ?thesis
    using run inv m
    by (auto simp: processRemoteStats_def monitor_inv_def Let_def
        split: sum.splits if_splits option.splits prod.splits
        intro!: list_all_update list_all_delete)
      (erule add_new, erule add_old, assumption)
qed


lemma fields_inv_sel:
  assumes "fields_inv n b"
  shows "count_ok (avgBitrateUp b)" and "count_ok (avgBitrateDown b)"
    and "count_ok (avgBandwidthUp b)" and "count_ok (avgBandwidthDown b)"
    and "count_ok (avgPacketLossTotal b)" and "count_ok (avgPacketLossUp b)"
    and "count_ok (avgPacketLossDown b)" and "count_ok (avgRemoteFPS b)"
    and "count_ok (avgLocalFPS b)" and "count_ok (avgCQ b)"
  using assms by (simp_all add: fields_inv_def averages_ok_def)

lemma fields_inv_upd:
  assumes "count_ok a" and "fields_inv n b"
  shows "fields_inv n (avgBitrateUp_update (\<lambda>old. a) b)"
    and "fields_inv n (avgBitrateDown_update (\<lambda>old. a) b)"
    and "fields_inv n (avgBandwidthUp_update (\<lambda>old. a) b)"
    and "fields_inv n (avgBandwidthDown_update (\<lambda>old. a) b)"
    and "fields_inv n (avgPacketLossTotal_update (\<lambda>old. a) b)"
    and "fields_inv n (avgPacketLossUp_update (\<lambda>old. a) b)"
    and "fields_inv n (avgPacketLossDown_update (\<lambda>old. a) b)"
    and "fields_inv n (avgRemoteFPS_update (\<lambda>old. a) b)"
    and "fields_inv n (avgLocalFPS_update (\<lambda>old. a) b)"
    and "fields_inv n (avgCQ_update (\<lambda>old. a) b)"
  using assms by (simp_all add: fields_inv_def averages_ok_def)

lemma feed_inv:
  assumes upd: "\<And>a b. count_ok a \<Longrightarrow> fields_inv n b \<Longrightarrow> fields_inv n (upd (\<lambda>old. a) b)"
    and sel: "\<And>b. fields_inv n b \<Longrightarrow> count_ok (sel b)"
    and inv: "fields_inv n (fst oc)"
  shows "fields_inv n (fst (feed arg sel upd oc))"
proof -
  obtain b es x where oc: "oc = (b, es, x)" by (cases oc)
  show ?thesis
  proof (cases x)
    case (Some e)
    with inv oc show ?thesis by (simp add: feed_def)
  next
    case None
    show ?thesis
    proof (cases arg)
      case (Inl e)
      with inv oc None show ?thesis by (simp add: feed_def)
    next
      case (Inr v)
      have "count_ok (fst (addNext v (sel b)))"
        using inv oc by (simp add: count_ok_addNext sel)
      then have "fields_inv n (upd (\<lambda>old. fst (addNext v (sel b))) b)"
        using inv oc by (simp add: upd)
      with oc None Inr show ?thesis
        by (cases "addNext v (sel b)") (simp add: feed_def)
    qed
  qed
qed

lemma accumulate_inv:
  assumes "fields_inv n b"
  shows "fields_inv n (fst (accumulate env data bitrate bandwidth packetLoss frameRate b))"
  unfolding accumulate_def Let_def
  by (simp add: assms feed_inv fields_inv_sel fields_inv_upd)

lemma resetAvgStats_inv:
  assumes "fields_inv n b"
  shows "fields_inv n (AvgRTPStatsReporter_resetAvgStats (b\<lparr>sampleIdx := i\<rparr>))"
  using assms
  by (auto simp: fields_inv_def averages_ok_def AvgRTPStatsReporter_resetAvgStats_def
      count_ok_reset)

lemma calculateAvgStats_fields_inv:
  assumes inv: "fields_inv n b"
  shows "fields_inv n (fst (calculateAvgStats_fields env n data b))"
proof -
  have acc: "fields_inv n b1"
    if "accumulate env data bitrate bandwidth packetLoss frameRate b = (b1, es, x)"
    for bitrate bandwidth packetLoss frameRate b1 es x
    using accumulate_inv [OF inv, of env data bitrate bandwidth packetLoss frameRate] that
    by simp
  have step: "fields_inv n (b1\<lparr>sampleIdx := sampleIdx b1 + 1\<rparr>)"
    if "fields_inv n b1" "\<not> n \<le> sampleIdx b1 + 1" for b1
    using that by (simp add: fields_inv_def averages_ok_def)
  show ?thesis
    unfolding calculateAvgStats_fields_def Let_def
    using inv
    by (auto split: sum.splits prod.splits option.splits
        dest!: acc intro: resetAvgStats_inv step)
qed

lemma calculateAvgStats_reporter_inv:
  "reporter_inv r \<Longrightarrow> reporter_inv (fst (AvgRTPStatsReporter_calculateAvgStats env data r))"
  using calculateAvgStats_fields_inv
  by (auto simp: reporter_inv_def AvgRTPStatsReporter_calculateAvgStats_def
      split: option.splits prod.splits) (metis fst_conv)

lemma onP2PStatusChanged_inv: "reporter_inv r \<Longrightarrow> reporter_inv (fst (onP2PStatusChanged r))"
  by (auto simp: reporter_inv_def onP2PStatusChanged_def Let_def fields_inv_def
      averages_ok_def AvgRTPStatsReporter_resetAvgStats_def count_ok_reset
      ConnectionAvgStats_resetAvgStats_def monitor_inv_def
      split: option.splits)

lemma on_monitor_inv:
  assumes h: "\<And>c c' es. monitor_inv (r_n r) c \<Longrightarrow> h c = Inr (c', es) \<Longrightarrow> monitor_inv (r_n r) c'"
    and inv: "reporter_inv r"
  shows "reporter_inv (fst (on_monitor isP2P h r))"
  using inv
  by (auto simp: reporter_inv_def on_monitor_def fields_inv_def averages_ok_def
      split: option.splits sum.splits dest: h)

lemma onConnectionStats_inv:
  "monitor_inv n c \<Longrightarrow> onConnectionStats env tpc_isP2P stats c = Inr (c', es) \<Longrightarrow>
     monitor_inv n c'"
  by (auto simp: onConnectionStats_def split: if_splits dest: monitor_inv_calculateAvgStats)

lemma deliver_inv: "reporter_inv r \<Longrightarrow> reporter_inv (fst (deliver env l ev r))"
proof (induction env l ev r rule: deliver.induct)
  case (1 env data r)
  then show ?case by (simp add: calculateAvgStats_reporter_inv)
next
  case (2 env r)
  then show ?case by (simp add: onP2PStatusChanged_inv)
next
  case (3 env isP2P tpc_isP2P stats r)
  then show ?case by (simp add: on_monitor_inv onConnectionStats_inv)
next
  case (4 env pid r)
  then show ?case by (auto intro!: on_monitor_inv simp: monitor_inv_onUserLeft)
next
  case (5 env pid data r)
  then show ?case by (auto intro!: on_monitor_inv dest: monitor_inv_processRemoteStats)
qed simp_all

lemma fire_listeners_inv:
  "reporter_inv (fst oc) \<Longrightarrow> reporter_inv (fst (fire_listeners env ev ls oc))"
proof (induction env ev ls oc rule: fire_listeners.induct)
  case (1 env ev oc)
  then show ?case by simp
next
  case (2 env ev l ls r es e)
  then show ?case by simp
next
  case (3 env ev l ls r es)
  obtain r' es' x where d: "deliver env l ev r = (r', es', x)"
    by (cases "deliver env l ev r")
  have "reporter_inv r'"
    using deliver_inv [of r env l ev] "3.prems" d by simp
  then show ?case
    using "3.IH" [OF d [symmetric] refl] d by simp
qed

lemma fire_inv: "reporter_inv (reporter s) \<Longrightarrow> reporter_inv (reporter (fst (fire env ev s)))"
  using fire_listeners_inv [of "(reporter s, [], None)" env ev "listeners s"]
  by (cases "fire_listeners env ev (listeners s) (reporter s, [], None)") (simp add: fire_def)

lemma run_inv: "reporter_inv (reporter s) \<Longrightarrow> reporter_inv (reporter (run evs s))"
proof (induction evs arbitrary: s)
  case Nil
  then show ?case by simp
next
  case (Cons x evs)
  obtain env ev where x: "x = (env, ev)" by (cases x)
  show ?case
    using Cons.IH [OF fire_inv [OF Cons.prems, of env ev]] by (simp add: x)
qed

lemma deliver_r_n: "r_n (fst (deliver env l ev r)) = r_n r"
  by (induction env l ev r rule: deliver.induct)
    (auto simp: AvgRTPStatsReporter_calculateAvgStats_def onP2PStatusChanged_def
      on_monitor_def Let_def split: option.splits prod.splits sum.splits)

lemma fire_listeners_r_n: "r_n (fst (fire_listeners env ev ls oc)) = r_n (fst oc)"
proof (induction env ev ls oc rule: fire_listeners.induct)
  case (3 env ev l ls r es)
  obtain r' es' x where d: "deliver env l ev r = (r', es', x)"
    by (cases "deliver env l ev r")
  have "r_n r' = r_n r"
    using deliver_r_n [of env l ev r] d by simp
  then show ?case
    using "3.IH" [OF d [symmetric] refl] d by simp
qed simp_all

lemma fire_r_n: "r_n (reporter (fst (fire env ev s))) = r_n (reporter s)"
  using fire_listeners_r_n [of env ev "listeners s" "(reporter s, [], None)"]
  by (cases "fire_listeners env ev (listeners s) (reporter s, [], None)") (simp add: fire_def)

lemma run_r_n: "r_n (reporter (run evs s)) = r_n (reporter s)"
proof (induction evs arbitrary: s)
  case Nil
  show ?case by simp
next
  case (Cons x evs)
  obtain env ev where x: "x = (env, ev)" by (cases x)
  show ?case by (simp add: x Cons.IH fire_r_n)
qed

lemma new_inv: "0 < n \<Longrightarrow> reporter_inv (reporter (fst (new_AvgRTPStatsReporter n)))"
  by (simp add: new_AvgRTPStatsReporter_def reporter_inv_def fields_inv_def averages_ok_def
      new_ReporterFields_def count_ok_new monitor_inv_def new_ConnectionAvgStats_def)

text \<open>
  Claim C10.  For a reporter constructed with a window size \<open>n > 0\<close> and any sequence
  of delivered events, after each event the sample index of the reporter and of each of
  its two monitors is at least 0 and below \<open>n\<close>, and every average has a count of at
  least 0 (\<open>fields_inv\<close>: the ten averages of the reporter, the round-trip average of
  each monitor and every entry of the per-participant map).  This holds also after an
  event whose handler threw.
\<close>

theorem window_invariant:
  assumes "0 < n"
  shows "\<exists>b. r_fields (reporter (run evs (fst (new_AvgRTPStatsReporter n)))) = Some b
           \<and> r_n (reporter (run evs (fst (new_AvgRTPStatsReporter n)))) = n
           \<and> 0 \<le> sampleIdx b \<and> sampleIdx b < n
           \<and> 0 \<le> c_sampleIdx (jvbStatsMonitor b) \<and> c_sampleIdx (jvbStatsMonitor b) < n
           \<and> 0 \<le> c_sampleIdx (p2pStatsMonitor b) \<and> c_sampleIdx (p2pStatsMonitor b) < n
           \<and> fields_inv n b"
proof -
  let ?s = "run evs (fst (new_AvgRTPStatsReporter n))"
  have n: "r_n (reporter ?s) = n"
    using assms by (simp add: run_r_n new_AvgRTPStatsReporter_def)
  have "reporter_inv (reporter ?s)"
    using assms by (intro run_inv new_inv)
  then obtain b where b: "r_fields (reporter ?s) = Some b" and inv: "fields_inv n b"
    using n by (auto simp: reporter_inv_def split: option.splits)
  from inv have "0 \<le> sampleIdx b \<and> sampleIdx b < n
      \<and> 0 \<le> c_sampleIdx (jvbStatsMonitor b) \<and> c_sampleIdx (jvbStatsMonitor b) < n
      \<and> 0 \<le> c_sampleIdx (p2pStatsMonitor b) \<and> c_sampleIdx (p2pStatsMonitor b) < n"
    by (simp add: fields_inv_def monitor_inv_def)
  with b n inv show ?thesis by blast
qed

theorem window_invariant_witness:
  "(0::int) < 2
   \<and> (\<exists>b. r_fields (reporter (run events_sample (fst (new_AvgRTPStatsReporter 2)))) = Some b
          \<and> 0 \<le> sampleIdx b \<and> sampleIdx b < 2 \<and> fields_inv 2 b)
   \<and> map_option sampleIdx
        (r_fields (reporter (run events_sample (fst (new_AvgRTPStatsReporter 2))))) = Some 1"
proof -
  have h: "(0::int) < 2" by simp
  have v: "map_option sampleIdx
        (r_fields (reporter (run events_sample (fst (new_AvgRTPStatsReporter 2))))) = Some 1"
    by code_simp
  show ?thesis
    using window_invariant [OF h, of events_sample] v by auto
qed

section \<open>The mode switch\<close>

text \<open>
  Claim C1 at a concrete input.  With window size 3, one local sample whose total packet
  loss is 5 is delivered and then the mode switches.  The upload packet-loss average is
  reset, but the total packet-loss average still holds the sample (count 1, sum 5):
  \<^verbatim>\<open>_resetAvgStats\<close> of the reporter has no statement for \<^verbatim>\<open>_avgPacketLossTotal\<close>.
\<close>

theorem mode_switch_keeps_total_packet_loss:
  "map_option avgPacketLossTotal (r_fields (reporter
      (run [(env_sample True 1, LOCAL_STATS_UPDATED (local_sample 100)),
            (env_sample False 1, P2P_STATUS)]
         (fst (new_AvgRTPStatsReporter 3)))))
     = Some \<lparr>name = ''stat.avg.packetloss.total'', count = 1, sum' = Fin 5\<rparr>
   \<and> map_option avgPacketLossUp (r_fields (reporter
      (run [(env_sample True 1, LOCAL_STATS_UPDATED (local_sample 100)),
            (env_sample False 1, P2P_STATUS)]
         (fst (new_AvgRTPStatsReporter 3)))))
     = Some \<lparr>name = ''stat.avg.packetloss.upload'', count = 0, sum' = Fin 0\<rparr>"
  by code_simp

text \<open>
  What a mode switch does reset on an initialised reporter: its sample index, nine of
  its ten averages (all but total packet loss, which is left as it was), and in both
  monitors the sample index, the round-trip average and the whole per-participant map.
  It logs one debug line and sends nothing to the sink.
\<close>

theorem mode_switch_resets_the_rest:
  assumes "r_fields r = Some b"
  shows "\<exists>b'. r_fields (fst (deliver env OnP2PStatusChanged P2P_STATUS r)) = Some b'
          \<and> r_n (fst (deliver env OnP2PStatusChanged P2P_STATUS r)) = r_n r
          \<and> snd (deliver env OnP2PStatusChanged P2P_STATUS r)
              = ([LogDebug ''Resetting average stats calculation''], None)
          \<and> sampleIdx b' = 0
          \<and> is_reset (avgBitrateUp b') \<and> is_reset (avgBitrateDown b')
          \<and> is_reset (avgBandwidthUp b') \<and> is_reset (avgBandwidthDown b')
          \<and> is_reset (avgPacketLossUp b') \<and> is_reset (avgPacketLossDown b')
          \<and> is_reset (avgRemoteFPS b') \<and> is_reset (avgLocalFPS b') \<and> is_reset (avgCQ b')
          \<and> avgPacketLossTotal b' = avgPacketLossTotal b
          \<and> c_sampleIdx (jvbStatsMonitor b') = 0 \<and> is_reset (avgRTT (jvbStatsMonitor b'))
          \<and> avgRemoteRTTMap (jvbStatsMonitor b') = []
          \<and> c_sampleIdx (p2pStatsMonitor b') = 0 \<and> is_reset (avgRTT (p2pStatsMonitor b'))
          \<and> avgRemoteRTTMap (p2pStatsMonitor b') = []"
  using assms
  by (simp add: onP2PStatusChanged_def Let_def AvgRTPStatsReporter_resetAvgStats_def
      ConnectionAvgStats_resetAvgStats_def reset_def is_reset_def)

theorem mode_switch_resets_the_rest_witness:
  "r_fields \<lparr>r_n = 3, r_fields = Some mid_window_fields\<rparr> = Some mid_window_fields
   \<and> (\<exists>b'. r_fields (fst (deliver (env_sample True 1) OnP2PStatusChanged P2P_STATUS
                 \<lparr>r_n = 3, r_fields = Some mid_window_fields\<rparr>)) = Some b'
          \<and> sampleIdx b' = 0 \<and> is_reset (avgCQ b')
          \<and> avgPacketLossTotal b'
              = \<lparr>name = ''stat.avg.packetloss.total'', count = 2, sum' = Fin 10\<rparr>
          \<and> c_sampleIdx (jvbStatsMonitor b') = 0
          \<and> avgRemoteRTTMap (jvbStatsMonitor b') = [])"
proof -
  have h: "r_fields \<lparr>r_n = 3, r_fields = Some mid_window_fields\<rparr> = Some mid_window_fields"
    by simp
  have t: "avgPacketLossTotal mid_window_fields
      = \<lparr>name = ''stat.avg.packetloss.total'', count = 2, sum' = Fin 10\<rparr>"
    by (simp add: mid_window_fields_def)
  show ?thesis
    using mode_switch_resets_the_rest [OF h, of "env_sample True 1"] t
    by auto
qed

end
